theory Spec2Isabelle
  imports Complex_Main
begin

section \<open>Tensors\<close>

text \<open>
  A tensor is its shape together with its elements in row-major order, which is how
  the tensor library stores a contiguous tensor. Elements are real numbers: rounding,
  infinities and NaN of floating-point arithmetic are outside this model, and
  division is the total division of the reals. The one place where the floating-point
  type of the tensors enters is the conversion of the Python float \<open>eps\<close> to that type
  when it is added to a tensor; it is a parameter of \<open>forward_minibatch_locals_dtype\<close>
  below.
\<close>

datatype tensor = Tensor (shape: "nat list") (data: "real list")

definition wf_tensor :: "tensor \<Rightarrow> bool" where
  "wf_tensor t = (length (data t) = prod_list (shape t))"

text \<open>\<open>a * b\<close>, \<open>a + b\<close>, \<open>a / b\<close> on tensors of one shape, and \<open>t + c\<close> with a
  scalar \<open>c\<close>: elementwise.\<close>

definition tmul :: "tensor \<Rightarrow> tensor \<Rightarrow> tensor" where
  "tmul a b = Tensor (shape a) (map2 (*) (data a) (data b))"

definition tadd :: "tensor \<Rightarrow> tensor \<Rightarrow> tensor" where
  "tadd a b = Tensor (shape a) (map2 (+) (data a) (data b))"

definition tdiv :: "tensor \<Rightarrow> tensor \<Rightarrow> tensor" where
  "tdiv a b = Tensor (shape a) (map2 (/) (data a) (data b))"

definition tadd_scalar :: "tensor \<Rightarrow> real \<Rightarrow> tensor" where
  "tadd_scalar t c = Tensor (shape t) (map (\<lambda>x. x + c) (data t))"

definition tdiv_scalar :: "tensor \<Rightarrow> real \<Rightarrow> tensor" where
  "tdiv_scalar t c = Tensor (shape t) (map (\<lambda>x. x / c) (data t))"

text \<open>\<open>t.unsqueeze(0)\<close>: a new leading dimension of size one.\<close>

definition unsqueeze0 :: "tensor \<Rightarrow> tensor" where
  "unsqueeze0 t = Tensor (1 # shape t) (data t)"

text \<open>
  \<open>torch.sum(t, dim=d)\<close> for one dimension \<open>d\<close>: the element at position \<open>(o, j, k)\<close>
  of a tensor seen as \<open>outer \<times> n \<times> inner\<close> has offset \<open>(o * n + j) * inner + k\<close>; the
  result drops dimension \<open>d\<close> and sums over \<open>j\<close>.
\<close>

definition sum_dim :: "nat \<Rightarrow> tensor \<Rightarrow> tensor" where
  "sum_dim d t =
     (let sh = shape t;
          outer = prod_list (take d sh);
          n = sh ! d;
          inner = prod_list (drop (Suc d) sh)
      in Tensor (take d sh @ drop (Suc d) sh)
           (map (\<lambda>i. sum_list (map (\<lambda>j. data t ! (((i div inner) * n + j) * inner + i mod inner))
                                   [0..<n]))
                [0..<outer * inner]))"

text \<open>\<open>torch.sum(t, dim=ds)\<close> for a list of dimensions: they are reduced from the
  highest to the lowest, so that the remaining indices keep their meaning.\<close>

definition torch_sum :: "tensor \<Rightarrow> nat list \<Rightarrow> tensor" where
  "torch_sum t ds = fold sum_dim (rev (sort ds)) t"

text \<open>\<open>torch.mean(t)\<close>: the mean of all elements.\<close>

definition torch_mean :: "tensor \<Rightarrow> real" where
  "torch_mean t = sum_list (data t) / real (length (data t))"

text \<open>\<open>torch.nn.functional.softmax(t, dim=d)\<close>: every element is exponentiated and
  divided by the sum of the exponentials along dimension \<open>d\<close>.\<close>

definition softmax :: "tensor \<Rightarrow> nat \<Rightarrow> tensor" where
  "softmax t d =
     (let sh = shape t;
          n = sh ! d;
          inner = prod_list (drop (Suc d) sh)
      in Tensor sh
           (map (\<lambda>i. exp (data t ! i) /
                      sum_list (map (\<lambda>j. exp (data t ! (((i div (n * inner)) * n + j) * inner + i mod inner)))
                                    [0..<n]))
                [0..<length (data t)]))"

text \<open>\<open>torch.cat(ts, 0)\<close> on tensors that agree in all dimensions but the first.\<close>

definition torch_cat0 :: "tensor list \<Rightarrow> tensor" where
  "torch_cat0 ts = Tensor (sum_list (map (\<lambda>t. hd (shape t)) ts) # tl (shape (hd ts)))
                          (concat (map data ts))"

text \<open>
  \<open>torch.einsum("ij,j->ij", a, b)\<close>. The equation has two subscripts for the first
  operand and one for the second, and \<open>einsum\<close> raises a \<open>RuntimeError\<close> when an
  operand has another number of dimensions, or when the two sizes of \<open>j\<close> differ and
  neither is one (a dimension of size one is broadcast).
\<close>

datatype error = TypeError | ValueError string | RuntimeError | NameError string | IndexError

definition einsum_ij_j :: "tensor \<Rightarrow> tensor \<Rightarrow> error + tensor" where
  "einsum_ij_j a b =
     (if length (shape a) \<noteq> 2 \<or> length (shape b) \<noteq> 1 then Inl RuntimeError
      else let I = shape a ! 0; Ja = shape a ! 1; Jb = shape b ! 0
           in if Ja \<noteq> Jb \<and> Ja \<noteq> 1 \<and> Jb \<noteq> 1 then Inl RuntimeError
              else let J = max Ja Jb
                   in Inr (Tensor [I, J]
                        (map (\<lambda>n. data a ! ((n div J) * Ja + (if Ja = 1 then 0 else n mod J)) *
                                   data b ! (if Jb = 1 then 0 else n mod J))
                             [0..<I * J])))"

section \<open>The collective runtime\<close>

text \<open>
  Every device runs the same program on its own tensors. A program either returns,
  or hands a tensor to the collective \<open>SyncFunction.apply\<close> and goes on with what
  the collective gives back.
\<close>

datatype 'a spmd = is_Return: Return (returned: 'a)
  | is_AllGather: AllGather (sent: tensor) (resume: "tensor \<Rightarrow> 'a spmd")

primrec bind_spmd :: "'a spmd \<Rightarrow> ('a \<Rightarrow> 'b spmd) \<Rightarrow> 'b spmd" where
  "bind_spmd (Return a) f = f a"
| "bind_spmd (AllGather t k) f = AllGather t (\<lambda>g. bind_spmd (k g) f)"

text \<open>
  The devices of a distributed run advance in lockstep, in the order of their ranks.
  When all of them are in the collective, each receives the tensors of all devices
  concatenated along dimension 0 (\<open>SyncFunction\<close> gathers and calls \<open>torch.cat\<close>).
  The run ends when all have returned; its result is the list of the returned values
  and the number of collective calls each device has made. A run in which one device
  has returned while another waits in a collective has no result.
\<close>

primrec run_lockstep :: "'a spmd \<Rightarrow> 'a spmd list \<Rightarrow> ('a list \<times> nat) option" where
  "run_lockstep (Return a) others =
     (if list_all is_Return others then Some (a # map returned others, 0) else None)"
| "run_lockstep (AllGather t k) others =
     (if list_all is_AllGather others
      then (let g = torch_cat0 (t # map sent others)
            in map_option (\<lambda>(rs, n). (rs, Suc n))
                 (run_lockstep (k g) (map (\<lambda>p. resume p g) others)))
      else None)"

record distributed =
  is_available :: bool
  is_initialized :: bool

definition synchronize_across_gpus :: "distributed \<Rightarrow> tensor \<Rightarrow> tensor spmd" where
  "synchronize_across_gpus env t =
     (if is_available env \<and> is_initialized env then AllGather t Return else Return t)"

section \<open>The soft Dice loss\<close>

datatype pyval = PyTensor (the_tensor: tensor) | PyNone | PyFloat real | PyList "real list"

fun is_tensor :: "pyval \<Rightarrow> bool" where
  "is_tensor (PyTensor t) = True"
| "is_tensor v = False"

record SoftDiceLoss =
  eps :: real
  apply_softmax :: bool
  class_weight_power :: "real option"

text \<open>The local variables of \<open>forward_minibatch\<close> when it reaches its \<open>return\<close>.\<close>

record locals =
  intersection0 :: tensor
  intersection :: tensor
  output_sum_square0 :: tensor
  output_sum_square :: tensor
  target_sum_square0 :: tensor
  target_sum_square :: tensor
  unsynced :: real
  synced :: real

text \<open>
  \<open>get_class_weights\<close> is imported from a module that is not part of the sources at
  hand; it is a parameter of the model. The messages of the two \<open>ValueError\<close>s are kept
  up to the shapes that the source formats into them. An exception ends the call, so
  an error is returned at the point where the source raises. The statistics are
  reduced over dimensions that exist, since the tensors have passed the checks.
\<close>

text \<open>
  \<open>tensor + self.eps\<close> adds a Python float to a tensor: the float is converted to the
  floating-point type of the tensor and then added. The conversion is the parameter
  \<open>cast\<close> of the definition.
\<close>

definition forward_minibatch_locals_dtype ::
  "(real \<Rightarrow> real) \<Rightarrow> SoftDiceLoss \<Rightarrow> distributed \<Rightarrow> (tensor \<Rightarrow> real \<Rightarrow> tensor)
     \<Rightarrow> pyval \<Rightarrow> pyval \<Rightarrow> (error + locals) spmd" where
  "forward_minibatch_locals_dtype cast self env get_class_weights output target =
     (if \<not> is_tensor output \<or> \<not> is_tensor target
      then Return (Inl TypeError)
      else if length (shape (the_tensor output)) < 3
      then Return (Inl (ValueError ''The shape of the output and target must be at least 3''))
      else if shape (the_tensor output) \<noteq> shape (the_tensor target)
      then Return (Inl (ValueError ''The output and target must have the same shape''))
      else
        let target = the_tensor target;
            output = (if apply_softmax self then softmax (the_tensor output) 1
                      else the_tensor output);
            sum_across = 0 # [2..<length (shape output)];
            intersection0 = unsqueeze0 (torch_sum (tmul output target) sum_across)
        in bind_spmd (synchronize_across_gpus env intersection0) (\<lambda>synced_intersection0.
           let intersection = sum_dim 0 synced_intersection0
           in bind_spmd
                (if class_weight_power self \<noteq> None \<and> class_weight_power self \<noteq> Some 0
                 then
                   let class_weights0 =
                         unsqueeze0 (get_class_weights target (the (class_weight_power self)))
                   in bind_spmd (synchronize_across_gpus env class_weights0) (\<lambda>class_weights.
                      let class_weights = tdiv_scalar (torch_sum class_weights [0])
                                            (real (shape class_weights ! 0))
                      in Return (einsum_ij_j intersection class_weights))
                 else Return (Inr intersection))
                (\<lambda>r. case r of
                   Inl e \<Rightarrow> Return (Inl e)
                 | Inr intersection \<Rightarrow>
                     let output_sum_square0 = unsqueeze0 (torch_sum (tmul output output) sum_across)
                     in bind_spmd (synchronize_across_gpus env output_sum_square0)
                          (\<lambda>synced_output_sum_square0.
                        let output_sum_square = sum_dim 0 synced_output_sum_square0;
                            target_sum_square0 =
                              unsqueeze0 (torch_sum (tmul target target) sum_across)
                        in bind_spmd (synchronize_across_gpus env target_sum_square0)
                             (\<lambda>synced_target_sum_square0.
                           let target_sum_square = sum_dim 0 synced_target_sum_square0
                           in Return (Inr \<lparr>
                                intersection0 = intersection0,
                                intersection = intersection,
                                output_sum_square0 = output_sum_square0,
                                output_sum_square = output_sum_square,
                                target_sum_square0 = target_sum_square0,
                                target_sum_square = target_sum_square,
                                unsynced = 1 - 2 * torch_mean
                                  (tdiv (tadd_scalar intersection0 (cast (eps self)))
                                        (tadd_scalar (tadd output_sum_square0 target_sum_square0)
                                                     (cast (eps self)))),
                                synced = 1 - 2 * torch_mean
                                  (tdiv (tadd_scalar intersection (cast (eps self)))
                                        (tadd_scalar (tadd output_sum_square target_sum_square)
                                                     (cast (eps self))))\<rparr>))))))"

text \<open>
  With a conversion that changes nothing, which is what the real numbers of this model
  stand for wherever the result does not hang on the rounding of \<open>eps\<close>.
\<close>

definition forward_minibatch_locals ::
  "SoftDiceLoss \<Rightarrow> distributed \<Rightarrow> (tensor \<Rightarrow> real \<Rightarrow> tensor) \<Rightarrow> pyval \<Rightarrow> pyval
     \<Rightarrow> (error + locals) spmd" where
  "forward_minibatch_locals self env get_class_weights output target =
     forward_minibatch_locals_dtype (\<lambda>x. x) self env get_class_weights output target"


text \<open>\<open>forward_minibatch\<close> returns the local variable \<open>synced\<close>.\<close>

definition forward_minibatch ::
  "SoftDiceLoss \<Rightarrow> distributed \<Rightarrow> (tensor \<Rightarrow> real \<Rightarrow> tensor) \<Rightarrow> pyval \<Rightarrow> pyval
     \<Rightarrow> (error + real) spmd" where
  "forward_minibatch self env get_class_weights output target =
     bind_spmd (forward_minibatch_locals self env get_class_weights output target)
       (\<lambda>r. Return (map_sum id synced r))"

text \<open>A distributed run: device \<open>r\<close> holds the \<open>r\<close>-th pair of tensors.\<close>

definition distributed_on :: distributed where
  "distributed_on = \<lparr>is_available = True, is_initialized = True\<rparr>"

definition distributed_forward ::
  "SoftDiceLoss \<Rightarrow> (tensor \<Rightarrow> real \<Rightarrow> tensor) \<Rightarrow> (pyval \<times> pyval) list
     \<Rightarrow> ((error + real) list \<times> nat) option" where
  "distributed_forward self get_class_weights world =
     (case map (\<lambda>(output, target).
                  forward_minibatch self distributed_on get_class_weights output target) world of
        [] \<Rightarrow> None
      | p # ps \<Rightarrow> run_lockstep p ps)"

section \<open>The training script\<close>

text \<open>
  The script is a straight line of calls into libraries. The model keeps what the
  claims need: the parsed arguments, whether the name \<open>run_info\<close> is bound, the
  datasets and loaders that are built, and the calls of \<open>trainer.fit\<close> in order.
  The library constructors are taken to succeed.
\<close>

record args =
  batch_size :: int
  csv_base_name :: string
  debug :: bool
  gpu :: "int option"
  azureml :: bool
  gpus :: "int option"

record azure_run_info =
  input_datasets :: "string option list"

datatype dataset =
    Prostate2DSimpleDataset "string option" string string nat "string list"
  | SynthDataset "string option" string bool

record dataloader =
  dataset :: dataset
  dl_batch_size :: int
  shuffle :: bool
  num_workers :: nat

record fit_call =
  fast_dev_run :: bool
  trainer_gpus :: "int option"
  train_dataloader :: dataloader
  val_dataloaders :: "dataloader list"

datatype outcome = Finished | Exited | Raised error

text \<open>\<open>xs[i]\<close> for a non-negative literal \<open>i\<close>.\<close>

definition index :: "'a list \<Rightarrow> nat \<Rightarrow> error + 'a" where
  "index xs i = (if i < length xs then Inr (xs ! i) else Inl IndexError)"

text \<open>
  \<open>submit_to_azure_if_needed\<close> belongs to a library: its result is a parameter, the
  run information it returns, or \<open>None\<close> when the call ends the process after it has
  submitted the job. The script returns how it ended and the calls of \<open>trainer.fit\<close>
  it made.
\<close>

definition main :: "azure_run_info option \<Rightarrow> args \<Rightarrow> outcome \<times> fit_call list" where
  "main submit_to_azure_if_needed args0 =
     (if azureml args0 \<and> submit_to_azure_if_needed = None then (Exited, [])
      else
        let run_info = (if azureml args0 then submit_to_azure_if_needed else None);
            args = (if gpu args0 \<noteq> None then args0\<lparr>gpus := Some 1\<rparr> else args0)
        in case run_info of
             None \<Rightarrow> (Raised (NameError ''run_info''), [])
           | Some ri \<Rightarrow>
               (case index (input_datasets ri) 1 of
                  Inl e \<Rightarrow> (Raised e, [])
                | Inr p1 \<Rightarrow>
                    let real_val_ds = Prostate2DSimpleDataset p1 (csv_base_name args) ''val'' 1
                                        [''femurs'', ''bladder'', ''prostate'']
                    in case index (input_datasets ri) 0 of
                         Inl e \<Rightarrow> (Raised e, [])
                       | Inr p0 \<Rightarrow>
                           let train_ds = SynthDataset p0 ''train'' (debug args);
                               synth_val_ds = SynthDataset p0 ''val'' (debug args);
                               train_dl = \<lparr>dataset = train_ds, dl_batch_size = batch_size args,
                                           shuffle = True, num_workers = 12\<rparr>;
                               synth_val_dl = \<lparr>dataset = synth_val_ds, dl_batch_size = batch_size args,
                                               shuffle = False, num_workers = 12\<rparr>;
                               real_val_dl = \<lparr>dataset = real_val_ds, dl_batch_size = batch_size args,
                                              shuffle = False, num_workers = 12\<rparr>;
                               fit = (\<lambda>fdr. \<lparr>fast_dev_run = fdr, trainer_gpus = gpus args,
                                             train_dataloader = train_dl,
                                             val_dataloaders = [synth_val_dl, real_val_dl]\<rparr>)
                           in (Finished, (if debug args then [fit True] else []) @ [fit False])))"

fun is_synthetic :: "dataset \<Rightarrow> bool" where
  "is_synthetic (SynthDataset p split dbg) = True"
| "is_synthetic (Prostate2DSimpleDataset p csv split n labels) = False"

fun is_real_labeled :: "dataset \<Rightarrow> bool" where
  "is_real_labeled (Prostate2DSimpleDataset p csv split n labels) = True"
| "is_real_labeled (SynthDataset p split dbg) = False"

section \<open>What the loss is specified to compute\<close>

text \<open>
  The inputs the loss accepts: two tensors of one shape \<open>Batch \<times> Classes \<times> spatial...\<close>
  with at least three dimensions, each holding as many elements as its shape says.
\<close>

definition valid_pair :: "tensor \<Rightarrow> tensor \<Rightarrow> bool" where
  "valid_pair out tgt =
     (wf_tensor out \<and> wf_tensor tgt \<and> 3 \<le> length (shape out) \<and> shape out = shape tgt)"

text \<open>
  The statistic of class \<open>c\<close>: the sum of \<open>a * b\<close> over the batch dimension and all
  spatial dimensions. The element of batch entry \<open>n\<close>, class \<open>c\<close> and spatial
  position \<open>s\<close> has offset \<open>(n * C + c) * S + s\<close>.
\<close>

definition per_class_sum :: "tensor \<Rightarrow> tensor \<Rightarrow> nat \<Rightarrow> real" where
  "per_class_sum a b c =
     (let B = shape a ! 0; C = shape a ! 1; S = prod_list (drop 2 (shape a))
      in sum_list (map (\<lambda>n. sum_list (map (\<lambda>s. data a ! ((n * C + c) * S + s) *
                                                 data b ! ((n * C + c) * S + s)) [0..<S]))
                       [0..<B]))"

text \<open>One minus twice the mean over the classes of
  \<open>(S_ot + eps) / (S_oo + S_tt + eps)\<close>.\<close>

definition dice_formula ::
  "real \<Rightarrow> nat \<Rightarrow> (nat \<Rightarrow> real) \<Rightarrow> (nat \<Rightarrow> real) \<Rightarrow> (nat \<Rightarrow> real) \<Rightarrow> real" where
  "dice_formula e C S_ot S_oo S_tt =
     1 - 2 * (sum_list (map (\<lambda>c. (S_ot c + e) / (S_oo c + S_tt c + e)) [0..<C]) / real C)"

text \<open>The output the statistics are taken of.\<close>

definition effective_output :: "SoftDiceLoss \<Rightarrow> tensor \<Rightarrow> tensor" where
  "effective_output self out = (if apply_softmax self then softmax out 1 else out)"

text \<open>The \<open>[1, classes]\<close> tensor of the statistics of one device, and the value
  the last two assignments of \<open>forward_minibatch\<close> compute from three statistics.\<close>

definition statistic :: "tensor \<Rightarrow> tensor \<Rightarrow> tensor" where
  "statistic a b = Tensor [1, shape a ! 1] (map (per_class_sum a b) [0..<shape a ! 1])"

definition soft_dice :: "real \<Rightarrow> tensor \<Rightarrow> tensor \<Rightarrow> tensor \<Rightarrow> real" where
  "soft_dice e i o' t =
     1 - 2 * torch_mean (tdiv (tadd_scalar i e) (tadd_scalar (tadd o' t) e))"


text \<open>Whether the class weights are applied: the condition of the \<open>if\<close> in
  \<open>forward_minibatch\<close>.\<close>

definition weighted :: "SoftDiceLoss \<Rightarrow> bool" where
  "weighted self = (class_weight_power self \<noteq> None \<and> class_weight_power self \<noteq> Some 0)"

text \<open>A program can return \<open>a\<close>: it does so for some answers of the collective.\<close>

inductive returns :: "'a spmd \<Rightarrow> 'a \<Rightarrow> bool" where
  returns_Return: "returns (Return a) a"
| returns_AllGather: "returns (k g) a \<Longrightarrow> returns (AllGather t k) a"


text \<open>The tensors of all devices as the arguments of the calls, and the worlds in
  which every device holds a valid pair with \<open>C\<close> classes.\<close>

definition pyworld :: "(tensor \<times> tensor) list \<Rightarrow> (pyval \<times> pyval) list" where
  "pyworld ws = map (\<lambda>(out, tgt). (PyTensor out, PyTensor tgt)) ws"

definition valid_world :: "nat \<Rightarrow> (tensor \<times> tensor) list \<Rightarrow> bool" where
  "valid_world C ws =
     (ws \<noteq> [] \<and> list_all (\<lambda>(out, tgt). valid_pair out tgt \<and> shape out ! 1 = C) ws)"

text \<open>The statistic of class \<open>c\<close> summed over all devices.\<close>

definition global_sum ::
  "(tensor \<times> tensor) list \<Rightarrow> (tensor \<times> tensor \<Rightarrow> tensor) \<Rightarrow> (tensor \<times> tensor \<Rightarrow> tensor)
     \<Rightarrow> nat \<Rightarrow> real" where
  "global_sum ws A B c = sum_list (map (\<lambda>x. per_class_sum (A x) (B x) c) ws)"


text \<open>The local variables at the \<open>return\<close> of \<open>forward_minibatch\<close>, given what the
  three calls of \<open>synchronize_across_gpus\<close> gave back.\<close>

definition locals_at_return ::
  "SoftDiceLoss \<Rightarrow> tensor \<Rightarrow> tensor \<Rightarrow> tensor \<Rightarrow> tensor \<Rightarrow> tensor \<Rightarrow> locals" where
  "locals_at_return self out tgt s1 s2 s3 = \<lparr>
     intersection0 = statistic (effective_output self out) tgt,
     intersection = sum_dim 0 s1,
     output_sum_square0 = statistic (effective_output self out) (effective_output self out),
     output_sum_square = sum_dim 0 s2,
     target_sum_square0 = statistic tgt tgt,
     target_sum_square = sum_dim 0 s3,
     unsynced = soft_dice (eps self) (statistic (effective_output self out) tgt)
                  (statistic (effective_output self out) (effective_output self out))
                  (statistic tgt tgt),
     synced = soft_dice (eps self) (sum_dim 0 s1) (sum_dim 0 s2) (sum_dim 0 s3)\<rparr>"




section \<open>Reducing over the batch and the spatial dimensions\<close>

lemma sum_list_upt_group:
  fixes g :: "nat \<Rightarrow> real"
  shows "sum_list (map (\<lambda>m. sum_list (map (\<lambda>j. g (m * n + j)) [0..<n])) [0..<k]) = sum_list (map g [0..<k * n])"
proof -
  have "(\<Sum>m<k. \<Sum>j = 0..<n. g (m * n + j)) = (\<Sum>m<k. sum g {m * n..<m * n + n})"
  proof (rule sum.cong[OF refl])
    fix m
    have "sum g {0 + m * n..<n + m * n} = (\<Sum>j = 0..<n. g (j + m * n))"
      by (rule sum.shift_bounds_nat_ivl)
    then show "(\<Sum>j = 0..<n. g (m * n + j)) = sum g {m * n..<m * n + n}"
      by (simp add: add.commute)
  qed
  also have "\<dots> = sum g {..<k * n}"
    by (rule sum.nat_group)
  finally show ?thesis
    by (simp add: interv_sum_list_conv_sum_set_nat atLeast0LessThan)
qed

lemma sum_dim_last:
  assumes "shape t = pre @ [n]"
  shows "sum_dim (length pre) t =
         Tensor pre (map (\<lambda>i. sum_list (map (\<lambda>j. data t ! (i * n + j)) [0..<n])) [0..<prod_list pre])"
  using assms by (simp add: sum_dim_def)

lemma sum_dim_trailing:
  "shape t = pre @ sp \<Longrightarrow> wf_tensor t \<Longrightarrow>
   fold sum_dim (rev [length pre..<length pre + length sp]) t =
   Tensor pre (map (\<lambda>q. sum_list (map (\<lambda>s. data t ! (q * prod_list sp + s)) [0..<prod_list sp]))
                   [0..<prod_list pre])"
proof (induction sp arbitrary: t rule: rev_induct)
  case Nil
  then show ?case
    by (cases t) (simp add: wf_tensor_def, metis map_nth)
next
  case (snoc n sp)
  let ?t1 = "sum_dim (length pre + length sp) t"
  have sh: "shape t = (pre @ sp) @ [n]" using snoc.prems by simp
  have t1: "?t1 = Tensor (pre @ sp) (map (\<lambda>i. sum_list (map (\<lambda>j. data t ! (i * n + j)) [0..<n])) [0..<prod_list (pre @ sp)])"
    using sum_dim_last[OF sh] by simp
  have "fold sum_dim (rev [length pre..<length pre + length (sp @ [n])]) t
        = fold sum_dim (rev [length pre..<length pre + length sp]) ?t1"
    by simp
  also have "\<dots> = Tensor pre (map (\<lambda>q. sum_list (map (\<lambda>s. data ?t1 ! (q * prod_list sp + s)) [0..<prod_list sp]))
                   [0..<prod_list pre])"
    by (rule snoc.IH) (simp_all add: t1 wf_tensor_def)
  also have "\<dots> = Tensor pre (map (\<lambda>q. sum_list (map (\<lambda>s. data t ! (q * prod_list (sp @ [n]) + s)) [0..<prod_list (sp @ [n])]))
                   [0..<prod_list pre])"
  proof -
    have "sum_list (map (\<lambda>s. data ?t1 ! (q * prod_list sp + s)) [0..<prod_list sp])
        = sum_list (map (\<lambda>s. data t ! (q * prod_list (sp @ [n]) + s)) [0..<prod_list (sp @ [n])])"
      if q: "q < prod_list pre" for q
    proof -
      have lt: "q * prod_list sp + s < prod_list pre * prod_list sp" if "s < prod_list sp" for s
      proof -
        have "q * prod_list sp + s < q * prod_list sp + prod_list sp" using that by simp
        also have "\<dots> = (Suc q) * prod_list sp" by simp
        also have "\<dots> \<le> prod_list pre * prod_list sp" using q by (intro mult_le_mono1) simp
        finally show ?thesis .
      qed
      have "sum_list (map (\<lambda>s. data ?t1 ! (q * prod_list sp + s)) [0..<prod_list sp])
          = sum_list (map (\<lambda>s. sum_list (map (\<lambda>j. data t ! ((q * prod_list sp + s) * n + j)) [0..<n])) [0..<prod_list sp])"
        by (rule arg_cong[where f=sum_list], rule map_cong[OF refl]) (simp add: t1 lt)
      also have "\<dots> = sum_list (map (\<lambda>s. sum_list (map (\<lambda>j. data t ! (q * (prod_list sp * n) + (s * n + j))) [0..<n])) [0..<prod_list sp])"
        by (simp add: algebra_simps)
      also have "\<dots> = sum_list (map (\<lambda>u. data t ! (q * (prod_list sp * n) + u)) [0..<prod_list sp * n])"
        by (rule sum_list_upt_group[where g="\<lambda>u. data t ! (q * (prod_list sp * n) + u)"])
      finally show ?thesis by simp
    qed
    then show ?thesis by simp
  qed
  finally show ?case .
qed


lemma sum_dim_0_matrix:
  assumes "shape t = [B, C]"
  shows "sum_dim 0 t = Tensor [C] (map (\<lambda>c. sum_list (map (\<lambda>b. data t ! (b * C + c)) [0..<B])) [0..<C])"
  using assms by (simp add: sum_dim_def)

lemma torch_sum_across:
  assumes sh: "shape t = B # C # sp" and wf: "wf_tensor t"
  shows "torch_sum t (0 # [2..<length (shape t)]) =
         Tensor [C] (map (\<lambda>c. sum_list (map (\<lambda>b. sum_list (map (\<lambda>s. data t ! ((b * C + c) * prod_list sp + s))
                                                        [0..<prod_list sp])) [0..<B])) [0..<C])"
proof -
  define ds where "ds = [length [B, C]..<length [B, C] + length sp]"
  have ds_eq: "[2..<length (shape t)] = ds"
    unfolding ds_def by (simp add: sh numeral_2_eq_2 del: upt_Suc)
  have srt: "sort (0 # ds) = 0 # ds"
    by (rule sorted_sort_id) (simp add: ds_def del: upt_Suc)
  let ?t1 = "fold sum_dim (rev ds) t"
  have t1: "?t1 = Tensor [B, C] (map (\<lambda>q. sum_list (map (\<lambda>s. data t ! (q * prod_list sp + s)) [0..<prod_list sp]))
                   [0..<prod_list [B, C]])"
    unfolding ds_def by (rule sum_dim_trailing) (simp_all add: sh wf)
  have "torch_sum t (0 # [2..<length (shape t)]) = sum_dim 0 ?t1"
    unfolding ds_eq torch_sum_def srt by simp
  also have "\<dots> = Tensor [C] (map (\<lambda>c. sum_list (map (\<lambda>b. data ?t1 ! (b * C + c)) [0..<B])) [0..<C])"
    by (rule sum_dim_0_matrix) (simp add: t1)
  also have "\<dots> = Tensor [C] (map (\<lambda>c. sum_list (map (\<lambda>b. sum_list (map (\<lambda>s. data t ! ((b * C + c) * prod_list sp + s))
                                                        [0..<prod_list sp])) [0..<B])) [0..<C])"
  proof -
    have lt: "b * C + c < B * C" if "b < B" "c < C" for b c
    proof -
      have "b * C + c < b * C + C" using that by simp
      also have "\<dots> = Suc b * C" by simp
      also have "\<dots> \<le> B * C" using that by (intro mult_le_mono1) simp
      finally show ?thesis .
    qed
    have "sum_list (map (\<lambda>b. data ?t1 ! (b * C + c)) [0..<B]) =
          sum_list (map (\<lambda>b. sum_list (map (\<lambda>s. data t ! ((b * C + c) * prod_list sp + s)) [0..<prod_list sp])) [0..<B])"
      if "c < C" for c
      by (rule arg_cong[where f=sum_list], rule map_cong[OF refl]) (simp add: t1 lt that)
    then show ?thesis by simp
  qed
  finally show ?thesis .
qed

lemma offset_bound:
  fixes B C S :: nat
  assumes "n < B" "c < C" "s < S"
  shows "(n * C + c) * S + s < B * C * S"
proof -
  have "n * C + c < n * C + C" using assms by simp
  also have "\<dots> = Suc n * C" by simp
  also have "\<dots> \<le> B * C" using assms by (intro mult_le_mono1) simp
  finally have q: "Suc (n * C + c) \<le> B * C" by simp
  have "(n * C + c) * S + s < (n * C + c) * S + S" using assms by simp
  also have "\<dots> = Suc (n * C + c) * S" by simp
  also have "\<dots> \<le> (B * C) * S" using q by (intro mult_le_mono1)
  finally show ?thesis .
qed

lemma torch_sum_tmul:
  assumes sh: "shape a = B # C # sp" "shape b = B # C # sp"
    and wf: "wf_tensor a" "wf_tensor b"
  shows "torch_sum (tmul a b) (0 # [2..<length (shape a)]) = Tensor [C] (map (per_class_sum a b) [0..<C])"
proof -
  let ?S = "prod_list sp"
  have len: "length (data a) = B * C * ?S" "length (data b) = B * C * ?S"
    using wf sh by (simp_all add: wf_tensor_def)
  have shm: "shape (tmul a b) = B # C # sp" by (simp add: tmul_def sh)
  have wfm: "wf_tensor (tmul a b)" by (simp add: wf_tensor_def tmul_def sh len)
  have nth: "data (tmul a b) ! i = data a ! i * data b ! i" if "i < B * C * ?S" for i
    using that by (simp add: tmul_def len)
  have "torch_sum (tmul a b) (0 # [2..<length (shape (tmul a b))]) =
        Tensor [C] (map (\<lambda>c. sum_list (map (\<lambda>n. sum_list (map (\<lambda>s. data (tmul a b) ! ((n * C + c) * ?S + s))
                                                        [0..<?S])) [0..<B])) [0..<C])"
    by (rule torch_sum_across[OF shm wfm])
  also have "\<dots> = Tensor [C] (map (per_class_sum a b) [0..<C])"
  proof -
    have "sum_list (map (\<lambda>n. sum_list (map (\<lambda>s. data (tmul a b) ! ((n * C + c) * ?S + s)) [0..<?S])) [0..<B])
          = per_class_sum a b c" if c: "c < C" for c
      unfolding per_class_sum_def Let_def
      apply (rule arg_cong[where f=sum_list], rule map_cong[OF _ ])
       apply (simp add: sh)
      apply (rule arg_cong[where f=sum_list], rule map_cong[OF _ ])
       apply (simp add: sh)
      apply (simp add: sh nth offset_bound c)
      done
    then show ?thesis by simp
  qed
  finally show ?thesis by (simp add: shm sh)
qed

section \<open>The program of one device\<close>

lemma softmax_shape [simp]: "shape (softmax t d) = shape t"
  by (simp add: softmax_def Let_def)

lemma softmax_wf: "wf_tensor t \<Longrightarrow> wf_tensor (softmax t d)"
  by (simp add: softmax_def Let_def wf_tensor_def)

lemma effective_output_shape [simp]: "shape (effective_output self out) = shape out"
  by (simp add: effective_output_def)

lemma effective_output_wf: "wf_tensor out \<Longrightarrow> wf_tensor (effective_output self out)"
  by (simp add: effective_output_def softmax_wf)

lemma soft_dice_maps:
  "soft_dice e (Tensor sh (map f [0..<C])) (Tensor sh' (map g [0..<C])) (Tensor sh'' (map h [0..<C]))
   = dice_formula e C f g h"
  by (simp add: soft_dice_def dice_formula_def torch_mean_def tdiv_def tadd_def tadd_scalar_def
      zip_map_map zip_same_conv_map o_def)

lemma shape_3: 
  assumes "3 \<le> length sh"
  obtains B C sp where "sh = B # C # sp" "sp \<noteq> []"
proof -
  from assms obtain B r1 where 1: "sh = B # r1" by (cases sh) auto
  with assms obtain C sp where 2: "r1 = C # sp" by (cases r1) auto
  with 1 assms have "sp \<noteq> []" by auto
  with 1 2 show ?thesis using that by blast
qed

lemma unsqueeze0_stat:
  assumes "valid_pair a b" "shape a = shape b"
  shows "unsqueeze0 (torch_sum (tmul a b) (0 # [2..<length (shape a)])) = statistic a b"
proof -
  from assms obtain B C sp where sh: "shape a = B # C # sp"
    by (auto simp: valid_pair_def elim: shape_3)
  have shb: "shape b = B # C # sp" using assms sh by simp
  have wf: "wf_tensor a" "wf_tensor b" using assms by (simp_all add: valid_pair_def)
  have "torch_sum (tmul a b) (0 # [2..<length (shape a)]) = Tensor [C] (map (per_class_sum a b) [0..<C])"
    by (rule torch_sum_tmul[OF sh shb wf])
  then show ?thesis by (simp add: unsqueeze0_def statistic_def sh)
qed

lemma forward_minibatch_locals_unweighted:
  assumes v: "valid_pair out tgt"
    and w: "class_weight_power self = None \<or> class_weight_power self = Some 0"
  shows "forward_minibatch_locals self env gcw (PyTensor out) (PyTensor tgt) =
     bind_spmd (synchronize_across_gpus env (statistic (effective_output self out) tgt)) (\<lambda>s1.
     bind_spmd (synchronize_across_gpus env
                  (statistic (effective_output self out) (effective_output self out))) (\<lambda>s2.
     bind_spmd (synchronize_across_gpus env (statistic tgt tgt)) (\<lambda>s3.
       Return (Inr (locals_at_return self out tgt s1 s2 s3)))))"
proof -
  let ?o = "effective_output self out"
  have vo: "valid_pair ?o tgt" "valid_pair ?o ?o" "valid_pair tgt tgt"
    using v by (auto simp add: valid_pair_def effective_output_wf)
  have so: "shape ?o = shape tgt" "length (shape ?o) = length (shape tgt)"
    using v by (simp_all add: valid_pair_def)
  have s1: "unsqueeze0 (torch_sum (tmul ?o tgt) (0 # [2..<length (shape tgt)])) = statistic ?o tgt"
    using unsqueeze0_stat[OF vo(1) so(1)] so by simp
  have s2: "unsqueeze0 (torch_sum (tmul ?o ?o) (0 # [2..<length (shape tgt)])) = statistic ?o ?o"
    using unsqueeze0_stat[OF vo(2) refl] so by simp
  have s3: "unsqueeze0 (torch_sum (tmul tgt tgt) (0 # [2..<length (shape tgt)])) = statistic tgt tgt"
    using unsqueeze0_stat[OF vo(3) refl] by simp
  have chk: "\<not> length (shape out) < 3" "shape out = shape tgt"
    using v by (auto simp add: valid_pair_def)
  show ?thesis
    using w chk s1 s2 s3 so
    by (auto simp add: forward_minibatch_locals_def forward_minibatch_locals_dtype_def Let_def effective_output_def[symmetric] soft_dice_def
        locals_at_return_def)
qed

lemma sum_dim_0_row:
  "sum_dim 0 (Tensor [1, C] (map f [0..<C])) = Tensor [C] (map f [0..<C])"
proof -
  have "sum_dim 0 (Tensor [1, C] (map f [0..<C])) =
        Tensor [C] (map (\<lambda>c. sum_list (map (\<lambda>b. map f [0..<C] ! (b * C + c)) [0..<1])) [0..<C])"
    using sum_dim_0_matrix[of "Tensor [1, C] (map f [0..<C])" 1 C] by simp
  also have "\<dots> = Tensor [C] (map f [0..<C])"
    by simp
  finally show ?thesis .
qed

lemma sum_dim_0_statistic:
  "sum_dim 0 (statistic a b) = Tensor [shape a ! 1] (map (per_class_sum a b) [0..<shape a ! 1])"
  unfolding statistic_def by (rule sum_dim_0_row)

lemma synchronize_local:
  "\<not> (is_available env \<and> is_initialized env) \<Longrightarrow> synchronize_across_gpus env t = Return t"
  by (simp add: synchronize_across_gpus_def)

lemma forward_minibatch_locals_local:
  assumes v: "valid_pair out tgt"
    and w: "class_weight_power self = None \<or> class_weight_power self = Some 0"
    and d: "\<not> (is_available env \<and> is_initialized env)"
  shows "\<exists>L. forward_minibatch_locals self env gcw (PyTensor out) (PyTensor tgt) = Return (Inr L) \<and>
     synced L = dice_formula (eps self) (shape out ! 1)
                  (per_class_sum (effective_output self out) tgt)
                  (per_class_sum (effective_output self out) (effective_output self out))
                  (per_class_sum tgt tgt) \<and>
     unsynced L = synced L"
proof -
  have C: "shape tgt ! Suc 0 = shape out ! Suc 0" using v by (simp add: valid_pair_def)
  show ?thesis
    unfolding forward_minibatch_locals_unweighted[OF v w] synchronize_local[OF d]
    by (simp add: locals_at_return_def sum_dim_0_statistic soft_dice_maps C)
      (simp add: statistic_def soft_dice_maps C)
qed


lemma per_class_sum_commute:
  "shape a = shape b \<Longrightarrow> per_class_sum a b c = per_class_sum b a c"
  by (simp add: per_class_sum_def Let_def mult.commute)

lemma dice_formula_cong:
  "(\<And>c. c < C \<Longrightarrow> f c = f' c) \<Longrightarrow> (\<And>c. c < C \<Longrightarrow> g c + h c = g' c + h' c) \<Longrightarrow>
   dice_formula e C f g h = dice_formula e C f' g' h'"
proof -
  assume f: "\<And>c. c < C \<Longrightarrow> f c = f' c" and g: "\<And>c. c < C \<Longrightarrow> g c + h c = g' c + h' c"
  have "map (\<lambda>c. (f c + e) / (g c + h c + e)) [0..<C] = map (\<lambda>c. (f' c + e) / (g' c + h' c + e)) [0..<C]"
    by (rule map_cong[OF refl]) (simp add: f g)
  then show ?thesis by (simp only: dice_formula_def)
qed

lemma forward_minibatch_local_value:
  assumes v: "valid_pair out tgt"
    and w: "class_weight_power self = None \<or> class_weight_power self = Some 0"
    and d: "\<not> (is_available env \<and> is_initialized env)"
  shows "forward_minibatch self env gcw (PyTensor out) (PyTensor tgt) =
         Return (Inr (dice_formula (eps self) (shape out ! 1)
                  (per_class_sum (effective_output self out) tgt)
                  (per_class_sum (effective_output self out) (effective_output self out))
                  (per_class_sum tgt tgt)))"
proof -
  from forward_minibatch_locals_local[OF v w d, of gcw]
  obtain L where "forward_minibatch_locals self env gcw (PyTensor out) (PyTensor tgt) = Return (Inr L)"
    and "synced L = dice_formula (eps self) (shape out ! 1)
                  (per_class_sum (effective_output self out) tgt)
                  (per_class_sum (effective_output self out) (effective_output self out))
                  (per_class_sum tgt tgt)"
    by auto
  then show ?thesis by (simp add: forward_minibatch_def)
qed


section \<open>The distributed run\<close>

lemma run_lockstep_AllGather_map:
  "run_lockstep (AllGather t k) (map (\<lambda>x. AllGather (tf x) (kf x)) xs) =
   map_option (\<lambda>(rs, n). (rs, Suc n))
     (run_lockstep (k (torch_cat0 (t # map tf xs)))
        (map (\<lambda>x. kf x (torch_cat0 (t # map tf xs))) xs))"
  by (simp add: list.pred_map o_def list.pred_True Let_def)

lemma run_lockstep_Return_map:
  "run_lockstep (Return a) (map (\<lambda>x. Return (f x)) xs) = Some (a # map f xs, 0)"
  by (simp add: list.pred_map o_def list.pred_True)

lemma concat_rows_nth:
  "b < length ws \<Longrightarrow> c < C \<Longrightarrow>
   concat (map (\<lambda>x. map (F x) [0..<C]) ws) ! (b * C + c) = F (ws ! b) c"
proof (induction ws arbitrary: b)
  case Nil
  then show ?case by simp
next
  case (Cons w ws)
  show ?case
  proof (cases b)
    case 0
    with Cons.prems show ?thesis by (simp add: nth_append)
  next
    case (Suc b')
    with Cons.prems have "b' < length ws" by simp
    from Cons.IH[OF this Cons.prems(2)] Suc show ?thesis
      by (simp add: nth_append)
  qed
qed

lemma map_nth_fun: "map (\<lambda>i. f (xs ! i)) [0..<length xs] = map f xs"
  by (rule nth_equalityI) simp_all

lemma sum_dim_0_cat_rows:
  assumes ne: "ws \<noteq> []"
  shows "sum_dim 0 (torch_cat0 (map (\<lambda>x. Tensor [1, C] (map (F x) [0..<C])) ws)) =
         Tensor [C] (map (\<lambda>c. sum_list (map (\<lambda>x. F x c) ws)) [0..<C])"
proof -
  let ?d = "concat (map (\<lambda>x. map (F x) [0..<C]) ws)"
  have cat: "torch_cat0 (map (\<lambda>x. Tensor [1, C] (map (F x) [0..<C])) ws) = Tensor [length ws, C] ?d"
    using ne by (simp add: torch_cat0_def o_def hd_map sum_list_triv)
  have "sum_dim 0 (Tensor [length ws, C] ?d) =
        Tensor [C] (map (\<lambda>c. sum_list (map (\<lambda>b. ?d ! (b * C + c)) [0..<length ws])) [0..<C])"
    using sum_dim_0_matrix[of "Tensor [length ws, C] ?d" "length ws" C] by simp
  also have "\<dots> = Tensor [C] (map (\<lambda>c. sum_list (map (\<lambda>x. F x c) ws)) [0..<C])"
  proof -
    have "sum_list (map (\<lambda>b. ?d ! (b * C + c)) [0..<length ws]) = sum_list (map (\<lambda>x. F x c) ws)"
      if c: "c < C" for c
    proof -
      have "map (\<lambda>b. ?d ! (b * C + c)) [0..<length ws] = map (\<lambda>b. F (ws ! b) c) [0..<length ws]"
        by (rule map_cong[OF refl]) (simp add: concat_rows_nth c)
      also have "\<dots> = map (\<lambda>x. F x c) ws" by (rule map_nth_fun)
      finally show ?thesis by (simp only:)
    qed
    then show ?thesis by simp
  qed
  finally show ?thesis using cat by simp
qed

lemma weighted_None_or_0: "\<not> weighted self \<longleftrightarrow> class_weight_power self = None \<or> class_weight_power self = Some 0"
  by (auto simp: weighted_def)

lemma forward_minibatch_locals_program:
  assumes v: "valid_pair out tgt" and w: "\<not> weighted self"
  shows "forward_minibatch_locals self distributed_on gcw (PyTensor out) (PyTensor tgt) =
     AllGather (statistic (effective_output self out) tgt) (\<lambda>s1.
     AllGather (statistic (effective_output self out) (effective_output self out)) (\<lambda>s2.
     AllGather (statistic tgt tgt) (\<lambda>s3.
       Return (Inr (locals_at_return self out tgt s1 s2 s3)))))"
  using w unfolding weighted_None_or_0
  by (simp add: forward_minibatch_locals_unweighted[OF v] synchronize_across_gpus_def distributed_on_def)

lemma run_lockstep_three:
  "run_lockstep
     (AllGather (a w) (\<lambda>s1. AllGather (b w) (\<lambda>s2. AllGather (c w) (\<lambda>s3. Return (r w s1 s2 s3)))))
     (map (\<lambda>x. AllGather (a x) (\<lambda>s1. AllGather (b x) (\<lambda>s2. AllGather (c x) (\<lambda>s3. Return (r x s1 s2 s3))))) ws)
   = Some (map (\<lambda>x. r x (torch_cat0 (map a (w # ws))) (torch_cat0 (map b (w # ws)))
                          (torch_cat0 (map c (w # ws)))) (w # ws), 3)"
  by (simp add: run_lockstep_AllGather_map run_lockstep_Return_map del: run_lockstep.simps)


lemma forward_minibatch_program:
  assumes v: "valid_pair out tgt" and w: "\<not> weighted self"
  shows "forward_minibatch self distributed_on gcw (PyTensor out) (PyTensor tgt) =
     AllGather (statistic (effective_output self out) tgt) (\<lambda>s1.
     AllGather (statistic (effective_output self out) (effective_output self out)) (\<lambda>s2.
     AllGather (statistic tgt tgt) (\<lambda>s3.
       Return (Inr (soft_dice (eps self) (sum_dim 0 s1) (sum_dim 0 s2) (sum_dim 0 s3))))))"
  by (simp add: forward_minibatch_def forward_minibatch_locals_program[OF v w] locals_at_return_def)

lemma sum_dim_0_cat_statistics:
  assumes ne: "ws \<noteq> []" and C: "\<And>x. x \<in> set ws \<Longrightarrow> shape (A x) ! 1 = C"
  shows "sum_dim 0 (torch_cat0 (map (\<lambda>x. statistic (A x) (B x)) ws)) =
         Tensor [C] (map (global_sum ws A B) [0..<C])"
proof -
  have m: "map (\<lambda>x. statistic (A x) (B x)) ws =
        map (\<lambda>x. Tensor [1, C] (map (per_class_sum (A x) (B x)) [0..<C])) ws"
    by (rule map_cong[OF refl]) (simp add: statistic_def C[simplified])
  have g: "(\<lambda>c. sum_list (map (\<lambda>x. per_class_sum (A x) (B x) c) ws)) = global_sum ws A B"
    by (rule ext) (simp add: global_sum_def)
  show ?thesis
    unfolding m sum_dim_0_cat_rows[OF ne] g ..
qed

lemma distributed_forward_unweighted:
  assumes vw: "valid_world C ws" and w: "\<not> weighted self"
  shows "distributed_forward self gcw (pyworld ws) =
     Some (replicate (length ws)
             (Inr (dice_formula (eps self) C
                (global_sum ws (\<lambda>x. effective_output self (fst x)) snd)
                (global_sum ws (\<lambda>x. effective_output self (fst x)) (\<lambda>x. effective_output self (fst x)))
                (global_sum ws snd snd))), 3)"
proof -
  let ?A = "\<lambda>x. statistic (effective_output self (fst x)) (snd x)"
  let ?B = "\<lambda>x. statistic (effective_output self (fst x)) (effective_output self (fst x))"
  let ?C = "\<lambda>x. statistic (snd x) (snd x)"
  let ?r = "\<lambda>(x::tensor \<times> tensor) s1 s2 s3.
              (Inr (soft_dice (eps self) (sum_dim 0 s1) (sum_dim 0 s2) (sum_dim 0 s3)) :: error + real)"
  let ?prog = "\<lambda>x. AllGather (?A x) (\<lambda>s1. AllGather (?B x) (\<lambda>s2. AllGather (?C x) (\<lambda>s3.
       Return (?r x s1 s2 s3))))"
  have ne: "ws \<noteq> []" using vw by (simp add: valid_world_def)
  have v: "valid_pair (fst x) (snd x)" and c1: "shape (fst x) ! 1 = C" if "x \<in> set ws" for x
    using vw that by (auto simp: valid_world_def list_all_iff)
  have c2: "shape (snd x) ! 1 = C" if "x \<in> set ws" for x
    using v[OF that] c1[OF that] by (simp add: valid_pair_def)
  have progs: "map (\<lambda>(output, target). forward_minibatch self distributed_on gcw output target)
                 (pyworld ws) = map ?prog ws"
    unfolding pyworld_def map_map
    by (rule map_cong[OF refl]) (simp add: case_prod_beta forward_minibatch_program[OF v w])
  from ne obtain x xs where ws: "ws = x # xs" by (cases ws) auto
  have run: "distributed_forward self gcw (pyworld ws) =
        Some (map (\<lambda>x. ?r x (torch_cat0 (map ?A ws)) (torch_cat0 (map ?B ws)) (torch_cat0 (map ?C ws))) ws, 3)"
    unfolding distributed_forward_def progs
    unfolding ws
    using run_lockstep_three[where w=x and ws=xs and a="?A" and b="?B" and c="?C" and r="?r"]
    by simp
  have g1: "sum_dim 0 (torch_cat0 (map ?A ws)) =
            Tensor [C] (map (global_sum ws (\<lambda>x. effective_output self (fst x)) snd) [0..<C])"
    by (rule sum_dim_0_cat_statistics[OF ne]) (simp add: c1[simplified])
  have g2: "sum_dim 0 (torch_cat0 (map ?B ws)) =
            Tensor [C] (map (global_sum ws (\<lambda>x. effective_output self (fst x))
                                           (\<lambda>x. effective_output self (fst x))) [0..<C])"
    by (rule sum_dim_0_cat_statistics[OF ne]) (simp add: c1[simplified])
  have g3: "sum_dim 0 (torch_cat0 (map ?C ws)) = Tensor [C] (map (global_sum ws snd snd) [0..<C])"
    by (rule sum_dim_0_cat_statistics[OF ne]) (simp add: c2[simplified])
  show ?thesis
    unfolding run g1 g2 g3 soft_dice_maps
    by (simp add: map_replicate_const)
qed

lemma einsum_rank: "length (shape a) \<noteq> 2 \<Longrightarrow> einsum_ij_j a b = Inl RuntimeError"
  by (simp add: einsum_ij_j_def)

lemma forward_minibatch_locals_weighted_local:
  assumes v: "valid_pair out tgt" and w: "weighted self"
    and d: "\<not> (is_available env \<and> is_initialized env)"
  shows "forward_minibatch_locals self env gcw (PyTensor out) (PyTensor tgt) = Return (Inl RuntimeError)"
proof -
  let ?o = "effective_output self out"
  have vo: "valid_pair ?o tgt" using v by (auto simp add: valid_pair_def effective_output_wf)
  have so: "shape ?o = shape tgt" "length (shape ?o) = length (shape tgt)"
    using v by (simp_all add: valid_pair_def)
  have s1: "unsqueeze0 (torch_sum (tmul ?o tgt) (0 # [2..<length (shape tgt)])) = statistic ?o tgt"
    using unsqueeze0_stat[OF vo so(1)] so by simp
  have chk: "\<not> length (shape out) < 3" "shape out = shape tgt"
    using v by (auto simp add: valid_pair_def)
  have r: "einsum_ij_j (sum_dim 0 (statistic ?o tgt)) b = Inl RuntimeError" for b
    by (rule einsum_rank) (simp add: sum_dim_0_statistic)
  show ?thesis
    using w chk s1 so r
    by (simp add: forward_minibatch_locals_def forward_minibatch_locals_dtype_def Let_def effective_output_def[symmetric] weighted_def
        synchronize_local[OF d])
qed

lemma forward_minibatch_weighted_program:
  assumes v: "valid_pair out tgt" and w: "weighted self"
  shows "forward_minibatch self distributed_on gcw (PyTensor out) (PyTensor tgt) =
           AllGather (statistic (effective_output self out) tgt)
             (resume (forward_minibatch self distributed_on gcw (PyTensor out) (PyTensor tgt)))"
    and "length (shape (sum_dim 0 s1)) \<noteq> 2 \<Longrightarrow>
         resume (forward_minibatch self distributed_on gcw (PyTensor out) (PyTensor tgt)) s1 =
           AllGather (unsqueeze0 (gcw tgt (the (class_weight_power self))))
             (\<lambda>cw. Return (Inl RuntimeError))"
proof -
  let ?o = "effective_output self out"
  have vo: "valid_pair ?o tgt" using v by (auto simp add: valid_pair_def effective_output_wf)
  have so: "shape ?o = shape tgt" "length (shape ?o) = length (shape tgt)"
    using v by (simp_all add: valid_pair_def)
  have s1: "unsqueeze0 (torch_sum (tmul ?o tgt) (0 # [2..<length (shape tgt)])) = statistic ?o tgt"
    using unsqueeze0_stat[OF vo so(1)] so by simp
  have chk: "\<not> length (shape out) < 3" "shape out = shape tgt"
    using v by (auto simp add: valid_pair_def)
  show "forward_minibatch self distributed_on gcw (PyTensor out) (PyTensor tgt) =
           AllGather (statistic (effective_output self out) tgt)
             (resume (forward_minibatch self distributed_on gcw (PyTensor out) (PyTensor tgt)))"
    using w chk s1 so
    by (simp add: forward_minibatch_def forward_minibatch_locals_def forward_minibatch_locals_dtype_def Let_def
        effective_output_def[symmetric] weighted_def synchronize_across_gpus_def distributed_on_def)
  show "resume (forward_minibatch self distributed_on gcw (PyTensor out) (PyTensor tgt)) s1 =
           AllGather (unsqueeze0 (gcw tgt (the (class_weight_power self))))
             (\<lambda>cw. Return (Inl RuntimeError))"
    if "length (shape (sum_dim 0 s1)) \<noteq> 2"
    using w chk s1 so einsum_rank[OF that]
    by (simp add: forward_minibatch_def forward_minibatch_locals_def forward_minibatch_locals_dtype_def Let_def
        effective_output_def[symmetric] weighted_def synchronize_across_gpus_def distributed_on_def)
qed

lemma distributed_forward_weighted:
  assumes vw: "valid_world C ws" and w: "weighted self"
  shows "distributed_forward self gcw (pyworld ws) =
         Some (replicate (length ws) (Inl RuntimeError), 2)"
proof -
  let ?P = "\<lambda>x. forward_minibatch self distributed_on gcw (PyTensor (fst x)) (PyTensor (snd x))"
  let ?A = "\<lambda>x. statistic (effective_output self (fst x)) (snd x)"
  let ?W = "\<lambda>x. unsqueeze0 (gcw (snd x) (the (class_weight_power self)))"
  let ?G = "torch_cat0 (map ?A ws)"
  have ne: "ws \<noteq> []" using vw by (simp add: valid_world_def)
  have v: "valid_pair (fst x) (snd x)" and c1: "shape (fst x) ! 1 = C" if "x \<in> set ws" for x
    using vw that by (auto simp: valid_world_def list_all_iff)
  have progs: "map (\<lambda>(output, target). forward_minibatch self distributed_on gcw output target)
                 (pyworld ws) = map (\<lambda>x. AllGather (?A x) (resume (?P x))) ws"
    unfolding pyworld_def map_map
    by (rule map_cong[OF refl])
      (simp add: case_prod_beta forward_minibatch_weighted_program(1)[OF v w, symmetric])
  have "sum_dim 0 ?G = Tensor [C] (map (global_sum ws (\<lambda>x. effective_output self (fst x)) snd) [0..<C])"
    by (rule sum_dim_0_cat_statistics[OF ne]) (simp add: c1[simplified])
  then have rank: "length (shape (sum_dim 0 ?G)) \<noteq> 2" by simp
  have second: "map (\<lambda>x. resume (?P x) ?G) ws = map (\<lambda>x. AllGather (?W x) (\<lambda>cw. Return (Inl RuntimeError))) ws"
    by (rule map_cong[OF refl]) (rule forward_minibatch_weighted_program(2)[OF v w rank])
  from ne obtain x xs where ws: "ws = x # xs" by (cases ws) auto
  have h: "resume (?P x) ?G = AllGather (?W x) (\<lambda>cw. Return (Inl RuntimeError))"
    and t: "map (\<lambda>x. resume (?P x) ?G) xs = map (\<lambda>x. AllGather (?W x) (\<lambda>cw. Return (Inl RuntimeError))) xs"
    using second unfolding ws by simp_all
  have "run_lockstep (AllGather (?A x) (resume (?P x))) (map (\<lambda>x. AllGather (?A x) (resume (?P x))) xs)
      = map_option (\<lambda>(rs, n). (rs, Suc n))
          (run_lockstep (resume (?P x) ?G) (map (\<lambda>x. resume (?P x) ?G) xs))"
    unfolding ws by (simp add: run_lockstep_AllGather_map del: run_lockstep.simps)
  also have "\<dots> = map_option (\<lambda>(rs, n). (rs, Suc n))
          (run_lockstep (AllGather (?W x) (\<lambda>cw. Return (Inl RuntimeError)))
             (map (\<lambda>x. AllGather (?W x) (\<lambda>cw. Return (Inl RuntimeError))) xs))"
    unfolding h t ..
  also have "\<dots> = Some (replicate (length ws) (Inl RuntimeError), 2)"
    unfolding ws
    by (simp add: run_lockstep_AllGather_map run_lockstep_Return_map del: run_lockstep.simps)
      (simp add: map_replicate_const)
  finally show ?thesis
    unfolding distributed_forward_def progs
    unfolding ws by simp
qed


section \<open>Signs of the statistics\<close>






lemma class_weight_power_zero_is_None:
  "forward_minibatch (self\<lparr>class_weight_power := Some 0\<rparr>) env gcw output target =
   forward_minibatch (self\<lparr>class_weight_power := None\<rparr>) env gcw output target"
  by (simp add: forward_minibatch_def forward_minibatch_locals_def forward_minibatch_locals_dtype_def)





lemma weighted_eps [simp]: "weighted (self\<lparr>eps := e\<rparr>) = weighted self"
  by (simp add: weighted_def)


section \<open>What a program can return\<close>

lemma returns_Return_iff [simp]: "returns (Return a) b \<longleftrightarrow> b = a"
  by (auto elim: returns.cases intro: returns.intros)

lemma returns_AllGather_iff [simp]: "returns (AllGather t k) a \<longleftrightarrow> (\<exists>g. returns (k g) a)"
  by (auto elim: returns.cases intro: returns.intros)

lemma returns_bind:
  "returns (bind_spmd p f) b \<longleftrightarrow> (\<exists>a. returns p a \<and> returns (f a) b)"
  by (induction p) auto

lemma einsum_error: "einsum_ij_j a b = Inl e \<Longrightarrow> e = RuntimeError"
  by (auto simp: einsum_ij_j_def Let_def split: if_splits)

lemma returns_map_sum:
  "returns (bind_spmd p (\<lambda>r. Return (map_sum id f r))) (Inl e) \<longleftrightarrow> returns p (Inl e)"
proof -
  have "map_sum id f a = Inl e \<longleftrightarrow> a = Inl e" for a
    by (cases a) auto
  then show ?thesis by (simp add: returns_bind eq_commute[of "Inl e"])
qed

lemma checked_raises_only_RuntimeError:
  assumes "is_tensor output" "is_tensor target"
    "\<not> length (shape (the_tensor output)) < 3"
    "shape (the_tensor output) = shape (the_tensor target)"
    "returns (forward_minibatch_locals self env gcw output target) (Inl e)"
  shows "e = RuntimeError"
  using assms
  by (auto simp: forward_minibatch_locals_def forward_minibatch_locals_dtype_def Let_def returns_bind split: if_splits sum.splits
      dest: einsum_error)
    (metis einsum_error sum.exhaust)+

lemma forward_minibatch_returns_Inl:
  "returns (forward_minibatch self env gcw output target) (Inl e) \<longleftrightarrow>
   returns (forward_minibatch_locals self env gcw output target) (Inl e)"
  unfolding forward_minibatch_def by (rule returns_map_sum)

lemma forward_minibatch_TypeError:
  "\<not> is_tensor output \<or> \<not> is_tensor target \<Longrightarrow>
   forward_minibatch self env gcw output target = Return (Inl TypeError)"
  by (auto simp: forward_minibatch_def forward_minibatch_locals_def forward_minibatch_locals_dtype_def)

lemma forward_minibatch_ValueError_dim:
  "is_tensor output \<Longrightarrow> is_tensor target \<Longrightarrow> length (shape (the_tensor output)) < 3 \<Longrightarrow>
   forward_minibatch self env gcw output target =
   Return (Inl (ValueError ''The shape of the output and target must be at least 3''))"
  by (simp add: forward_minibatch_def forward_minibatch_locals_def forward_minibatch_locals_dtype_def)

lemma forward_minibatch_ValueError_shape:
  "is_tensor output \<Longrightarrow> is_tensor target \<Longrightarrow> \<not> length (shape (the_tensor output)) < 3 \<Longrightarrow>
   shape (the_tensor output) \<noteq> shape (the_tensor target) \<Longrightarrow>
   forward_minibatch self env gcw output target =
   Return (Inl (ValueError ''The output and target must have the same shape''))"
  by (simp add: forward_minibatch_def forward_minibatch_locals_def forward_minibatch_locals_dtype_def)

lemma forward_minibatch_checked:
  "is_tensor output \<Longrightarrow> is_tensor target \<Longrightarrow> \<not> length (shape (the_tensor output)) < 3 \<Longrightarrow>
   shape (the_tensor output) = shape (the_tensor target) \<Longrightarrow>
   returns (forward_minibatch self env gcw output target) (Inl e) \<Longrightarrow> e = RuntimeError"
  unfolding forward_minibatch_returns_Inl by (rule checked_raises_only_RuntimeError)


section \<open>A run of the script that reaches the trainer\<close>


lemma main_fits:
  "list_all (\<lambda>f. is_synthetic (dataset (train_dataloader f)) \<and>
                  is_real_labeled (dataset (train_dataloader f)) = False \<and>
                  map (\<lambda>d. is_real_labeled (dataset d)) (val_dataloaders f) = [False, True])
            (snd (main submit args))"
  by (simp add: main_def index_def Let_def split: option.splits)


section \<open>The loss on a single device\<close>

text \<open>
  C1: for tensors \<open>output\<close> and \<open>target\<close> of one shape with at least three dimensions,
  without class weights and without an initialised distributed runtime,
  \<open>forward_minibatch\<close> returns one minus twice the mean over the classes of
  \<open>(S_ot + eps) / (S_oo + S_tt + eps)\<close>, the three sums taken per class over the batch
  and all spatial dimensions; with \<open>apply_softmax\<close> the sums are those of the softmax of
  \<open>output\<close> along dimension 1 (\<open>effective_output\<close>), otherwise of \<open>output\<close> itself.
\<close>

theorem forward_minibatch_formula:
  assumes v: "valid_pair out tgt"
    and w: "class_weight_power self = None"
    and d: "\<not> (is_available env \<and> is_initialized env)"
  shows "forward_minibatch self env gcw (PyTensor out) (PyTensor tgt) =
         Return (Inr (dice_formula (eps self) (shape out ! 1)
                  (per_class_sum (effective_output self out) tgt)
                  (per_class_sum (effective_output self out) (effective_output self out))
                  (per_class_sum tgt tgt)))"
  using forward_minibatch_local_value[OF v _ d, of self gcw] w by simp

theorem forward_minibatch_formula_witness:
  "valid_pair (Tensor [1, 2, 2] [1, 0, 0, 1]) (Tensor [1, 2, 2] [1, 0, 1, 0]) \<and>
   forward_minibatch \<lparr>eps = 1 / 100000, apply_softmax = False, class_weight_power = None\<rparr>
     \<lparr>is_available = True, is_initialized = False\<rparr> (\<lambda>t p. t)
     (PyTensor (Tensor [1, 2, 2] [1, 0, 0, 1])) (PyTensor (Tensor [1, 2, 2] [1, 0, 1, 0]))
   = Return (Inr (33333 / 66667))"
  using forward_minibatch_formula [of "Tensor [1, 2, 2] [1, 0, 0, 1]" "Tensor [1, 2, 2] [1, 0, 1, 0]"
      "\<lparr>eps = 1 / 100000, apply_softmax = False, class_weight_power = None\<rparr>"
      "\<lparr>is_available = True, is_initialized = False\<rparr>" "\<lambda>t p. t"]
  by (simp add: valid_pair_def wf_tensor_def dice_formula_def per_class_sum_def
      effective_output_def upt_conv_Cons)

section \<open>The loss in a distributed run\<close>

text \<open>
  C2: for every number of devices (the length of \<open>ws\<close>, at least one), with the
  collective stacking the \<open>[1, classes]\<close> statistics of the devices along dimension 0,
  every device returns the same loss, and it is the formula applied to the statistics
  summed over all devices: the intersection and the two sums of squares are summed
  across the devices before the division and the mean over the classes.
\<close>

theorem distributed_loss_globally_aggregated:
  assumes vw: "valid_world C ws" and w: "\<not> weighted self"
  shows "map_option fst (distributed_forward self gcw (pyworld ws)) =
     Some (replicate (length ws)
             (Inr (dice_formula (eps self) C
                (global_sum ws (\<lambda>x. effective_output self (fst x)) snd)
                (global_sum ws (\<lambda>x. effective_output self (fst x)) (\<lambda>x. effective_output self (fst x)))
                (global_sum ws snd snd))))"
  by (simp add: distributed_forward_unweighted[OF vw w])

theorem distributed_loss_globally_aggregated_witness:
  "valid_world 2 [(Tensor [1, 2, 1] [1, 0], Tensor [1, 2, 1] [1, 0]),
        (Tensor [2, 2, 1] [0, 1, 1, 0], Tensor [2, 2, 1] [0, 1, 0, 1])] \<and>
   \<not> weighted \<lparr>eps = 1 / 100000, apply_softmax = False, class_weight_power = None\<rparr> \<and>
   map_option fst (distributed_forward
     \<lparr>eps = 1 / 100000, apply_softmax = False, class_weight_power = None\<rparr> (\<lambda>t p. t)
     [(PyTensor (Tensor [1, 2, 1] [1, 0]), PyTensor (Tensor [1, 2, 1] [1, 0])),
      (PyTensor (Tensor [2, 2, 1] [0, 1, 1, 0]), PyTensor (Tensor [2, 2, 1] [0, 1, 0, 1]))])
   = Some [Inr (99999 / 300001), Inr (99999 / 300001)]"
  using distributed_loss_globally_aggregated [of 2
      "[(Tensor [1, 2, 1] [1, 0], Tensor [1, 2, 1] [1, 0]),
        (Tensor [2, 2, 1] [0, 1, 1, 0], Tensor [2, 2, 1] [0, 1, 0, 1])]"
      "\<lparr>eps = 1 / 100000, apply_softmax = False, class_weight_power = None\<rparr>" "\<lambda>t p. t"]
  by (simp add: valid_world_def valid_pair_def wf_tensor_def weighted_def pyworld_def
      dice_formula_def global_sum_def per_class_sum_def effective_output_def upt_conv_Cons)






section \<open>The denominators\<close>





section \<open>Class weights\<close>

text \<open>
  C5: with a class weight power that is neither \<open>None\<close> nor zero the intersection is
  to be multiplied by the class weights averaged over the devices. The code does not
  get there: \<open>intersection\<close> has the one dimension \<open>[classes]\<close> after the sum over
  dimension 0, the equation \<open>ij,j->ij\<close> asks for two, and \<open>einsum\<close> raises. This holds
  on a single device and, after two collective calls, on every device of a
  distributed run.
\<close>

theorem forward_minibatch_weighted_raises:
  assumes v: "valid_pair out tgt" and w: "weighted self"
    and d: "\<not> (is_available env \<and> is_initialized env)"
    and vw: "valid_world C ws"
  shows "forward_minibatch self env gcw (PyTensor out) (PyTensor tgt) = Return (Inl RuntimeError) \<and>
         distributed_forward self gcw (pyworld ws) = Some (replicate (length ws) (Inl RuntimeError), 2)"
  by (simp add: forward_minibatch_def forward_minibatch_locals_weighted_local[OF v w d]
      distributed_forward_weighted[OF vw w])

theorem forward_minibatch_weighted_raises_witness:
  "valid_pair (Tensor [1, 2, 2] [1, 0, 0, 1]) (Tensor [1, 2, 2] [1, 0, 1, 0]) \<and>
   weighted \<lparr>eps = 1 / 100000, apply_softmax = False, class_weight_power = Some 1\<rparr> \<and>
   valid_world 2 [(Tensor [1, 2, 1] [1, 0], Tensor [1, 2, 1] [1, 0]),
        (Tensor [2, 2, 1] [0, 1, 1, 0], Tensor [2, 2, 1] [0, 1, 0, 1])] \<and>
   forward_minibatch \<lparr>eps = 1 / 100000, apply_softmax = False, class_weight_power = Some 1\<rparr>
     \<lparr>is_available = True, is_initialized = False\<rparr> (\<lambda>t p. Tensor [2] [1, 1])
     (PyTensor (Tensor [1, 2, 2] [1, 0, 0, 1])) (PyTensor (Tensor [1, 2, 2] [1, 0, 1, 0])) = Return (Inl RuntimeError) \<and>
   distributed_forward \<lparr>eps = 1 / 100000, apply_softmax = False, class_weight_power = Some 1\<rparr> (\<lambda>t p. Tensor [2] [1, 1])
     [(PyTensor (Tensor [1, 2, 1] [1, 0]), PyTensor (Tensor [1, 2, 1] [1, 0])),
      (PyTensor (Tensor [2, 2, 1] [0, 1, 1, 0]), PyTensor (Tensor [2, 2, 1] [0, 1, 0, 1]))]
   = Some ([Inl RuntimeError, Inl RuntimeError], 2)"
  using forward_minibatch_weighted_raises [of "Tensor [1, 2, 2] [1, 0, 0, 1]" "Tensor [1, 2, 2] [1, 0, 1, 0]"
      "\<lparr>eps = 1 / 100000, apply_softmax = False, class_weight_power = Some 1\<rparr>"
      "\<lparr>is_available = True, is_initialized = False\<rparr>" 2
      "[(Tensor [1, 2, 1] [1, 0], Tensor [1, 2, 1] [1, 0]),
        (Tensor [2, 2, 1] [0, 1, 1, 0], Tensor [2, 2, 1] [0, 1, 0, 1])]" "\<lambda>t p. Tensor [2] [1, 1]"]
  by (simp add: valid_world_def valid_pair_def wf_tensor_def weighted_def pyworld_def)


section \<open>Without a distributed runtime\<close>




section \<open>The checks on the arguments\<close>

text \<open>
  C8: \<open>forward_minibatch\<close> raises \<open>TypeError\<close> exactly when \<open>output\<close> or \<open>target\<close> is
  not a tensor; for two tensors it raises \<open>ValueError\<close> exactly when \<open>output\<close> has fewer
  than three dimensions or the two shapes differ. The type is checked first, then the
  number of dimensions, then the equality of the shapes, and a failed check ends the
  call at once, before any statistic is computed or any collective is called.
\<close>

theorem input_validation:
  "(returns (forward_minibatch self env gcw output target) (Inl TypeError) \<longleftrightarrow>
      \<not> is_tensor output \<or> \<not> is_tensor target) \<and>
   (is_tensor output \<and> is_tensor target \<longrightarrow>
      ((\<exists>m. returns (forward_minibatch self env gcw output target) (Inl (ValueError m))) \<longleftrightarrow>
       length (shape (the_tensor output)) < 3 \<or>
       shape (the_tensor output) \<noteq> shape (the_tensor target))) \<and>
   (\<not> is_tensor output \<or> \<not> is_tensor target \<longrightarrow>
      forward_minibatch self env gcw output target = Return (Inl TypeError)) \<and>
   (is_tensor output \<and> is_tensor target \<and> length (shape (the_tensor output)) < 3 \<longrightarrow>
      forward_minibatch self env gcw output target =
      Return (Inl (ValueError ''The shape of the output and target must be at least 3''))) \<and>
   (is_tensor output \<and> is_tensor target \<and> \<not> length (shape (the_tensor output)) < 3 \<and>
    shape (the_tensor output) \<noteq> shape (the_tensor target) \<longrightarrow>
      forward_minibatch self env gcw output target =
      Return (Inl (ValueError ''The output and target must have the same shape'')))"
proof (intro conjI impI)
  show "returns (forward_minibatch self env gcw output target) (Inl TypeError) \<longleftrightarrow>
      \<not> is_tensor output \<or> \<not> is_tensor target"
  proof
    assume r: "returns (forward_minibatch self env gcw output target) (Inl TypeError)"
    show "\<not> is_tensor output \<or> \<not> is_tensor target"
    proof (rule ccontr)
      assume "\<not> (\<not> is_tensor output \<or> \<not> is_tensor target)"
      then have t: "is_tensor output" "is_tensor target" by auto
      show False
      proof (cases "length (shape (the_tensor output)) < 3")
        case True
        from r show False unfolding forward_minibatch_ValueError_dim[OF t True] by simp
      next
        case False
        show False
        proof (cases "shape (the_tensor output) = shape (the_tensor target)")
          case True
          from forward_minibatch_checked[OF t False True r] show False by simp
        next
          case ne: False
          from r show False unfolding forward_minibatch_ValueError_shape[OF t False ne] by simp
        qed
      qed
    qed
  next
    assume "\<not> is_tensor output \<or> \<not> is_tensor target"
    then show "returns (forward_minibatch self env gcw output target) (Inl TypeError)"
      by (simp add: forward_minibatch_TypeError)
  qed
next
  assume t: "is_tensor output \<and> is_tensor target"
  show "(\<exists>m. returns (forward_minibatch self env gcw output target) (Inl (ValueError m))) \<longleftrightarrow>
       length (shape (the_tensor output)) < 3 \<or>
       shape (the_tensor output) \<noteq> shape (the_tensor target)"
  proof
    assume "\<exists>m. returns (forward_minibatch self env gcw output target) (Inl (ValueError m))"
    then obtain m where r: "returns (forward_minibatch self env gcw output target) (Inl (ValueError m))" ..
    show "length (shape (the_tensor output)) < 3 \<or>
       shape (the_tensor output) \<noteq> shape (the_tensor target)"
    proof (rule ccontr)
      assume "\<not> (length (shape (the_tensor output)) < 3 \<or>
       shape (the_tensor output) \<noteq> shape (the_tensor target))"
      then have "\<not> length (shape (the_tensor output)) < 3"
        "shape (the_tensor output) = shape (the_tensor target)" by auto
      from forward_minibatch_checked[OF _ _ this r] t show False by simp
    qed
  next
    assume c: "length (shape (the_tensor output)) < 3 \<or>
       shape (the_tensor output) \<noteq> shape (the_tensor target)"
    show "\<exists>m. returns (forward_minibatch self env gcw output target) (Inl (ValueError m))"
    proof (cases "length (shape (the_tensor output)) < 3")
      case True
      with t show ?thesis by (simp add: forward_minibatch_ValueError_dim)
    next
      case False
      with c t show ?thesis by (simp add: forward_minibatch_ValueError_shape)
    qed
  qed
next
  assume "\<not> is_tensor output \<or> \<not> is_tensor target"
  then show "forward_minibatch self env gcw output target = Return (Inl TypeError)"
    by (rule forward_minibatch_TypeError)
next
  assume "is_tensor output \<and> is_tensor target \<and> length (shape (the_tensor output)) < 3"
  then show "forward_minibatch self env gcw output target =
      Return (Inl (ValueError ''The shape of the output and target must be at least 3''))"
    by (simp add: forward_minibatch_ValueError_dim)
next
  assume "is_tensor output \<and> is_tensor target \<and> \<not> length (shape (the_tensor output)) < 3 \<and>
    shape (the_tensor output) \<noteq> shape (the_tensor target)"
  then show "forward_minibatch self env gcw output target =
      Return (Inl (ValueError ''The output and target must have the same shape''))"
    by (simp add: forward_minibatch_ValueError_shape)
qed

theorem input_validation_witness:
  "returns (forward_minibatch \<lparr>eps = 1 / 100000, apply_softmax = False, class_weight_power = None\<rparr>
      \<lparr>is_available = True, is_initialized = False\<rparr> (\<lambda>t p. t)
      PyNone (PyTensor (Tensor [2, 2] [1, 2, 3, 4]))) (Inl TypeError) \<and>
   forward_minibatch \<lparr>eps = 1 / 100000, apply_softmax = False, class_weight_power = None\<rparr>
      \<lparr>is_available = True, is_initialized = False\<rparr> (\<lambda>t p. t)
      PyNone (PyTensor (Tensor [2, 2] [1, 2, 3, 4])) = Return (Inl TypeError) \<and>
   forward_minibatch \<lparr>eps = 1 / 100000, apply_softmax = False, class_weight_power = None\<rparr>
      \<lparr>is_available = True, is_initialized = False\<rparr> (\<lambda>t p. t)
      (PyTensor (Tensor [2, 2] [1, 2, 3, 4])) (PyTensor (Tensor [1, 2, 2] [1, 0, 1, 0])) =
      Return (Inl (ValueError ''The shape of the output and target must be at least 3'')) \<and>
   forward_minibatch \<lparr>eps = 1 / 100000, apply_softmax = False, class_weight_power = None\<rparr>
      \<lparr>is_available = True, is_initialized = False\<rparr> (\<lambda>t p. t)
      (PyTensor (Tensor [1, 2, 2] [1, 0, 0, 1])) (PyTensor (Tensor [1, 1, 4] [1, 0, 1, 0])) =
      Return (Inl (ValueError ''The output and target must have the same shape'')) \<and>
   \<not> (\<exists>m. returns (forward_minibatch \<lparr>eps = 1 / 100000, apply_softmax = False, class_weight_power = None\<rparr>
      \<lparr>is_available = True, is_initialized = True\<rparr> (\<lambda>t p. t)
      (PyTensor (Tensor [1, 2, 2] [1, 0, 0, 1])) (PyTensor (Tensor [1, 2, 2] [1, 0, 1, 0])))
      (Inl (ValueError m)))"
  using
    input_validation [of "\<lparr>eps = 1 / 100000, apply_softmax = False, class_weight_power = None\<rparr>"
      "\<lparr>is_available = True, is_initialized = False\<rparr>" "\<lambda>t p. t"
      PyNone "PyTensor (Tensor [2, 2] [1, 2, 3, 4])"]
    input_validation [of "\<lparr>eps = 1 / 100000, apply_softmax = False, class_weight_power = None\<rparr>"
      "\<lparr>is_available = True, is_initialized = False\<rparr>" "\<lambda>t p. t"
      "PyTensor (Tensor [2, 2] [1, 2, 3, 4])" "PyTensor (Tensor [1, 2, 2] [1, 0, 1, 0])"]
    input_validation [of "\<lparr>eps = 1 / 100000, apply_softmax = False, class_weight_power = None\<rparr>"
      "\<lparr>is_available = True, is_initialized = False\<rparr>" "\<lambda>t p. t"
      "PyTensor (Tensor [1, 2, 2] [1, 0, 0, 1])" "PyTensor (Tensor [1, 1, 4] [1, 0, 1, 0])"]
    input_validation [of "\<lparr>eps = 1 / 100000, apply_softmax = False, class_weight_power = None\<rparr>"
      "\<lparr>is_available = True, is_initialized = True\<rparr>" "\<lambda>t p. t"
      "PyTensor (Tensor [1, 2, 2] [1, 0, 0, 1])" "PyTensor (Tensor [1, 2, 2] [1, 0, 1, 0])"]
  by simp


text \<open>
  C10: without softmax, without class weights and on a single device the loss is
  symmetric: swapping \<open>output\<close> and \<open>target\<close> does not change the value
  \<open>forward_minibatch\<close> returns.
\<close>

theorem forward_minibatch_symmetric:
  assumes v: "valid_pair out tgt"
    and s: "\<not> apply_softmax self"
    and w: "class_weight_power self = None"
    and d: "\<not> (is_available env \<and> is_initialized env)"
  shows "forward_minibatch self env gcw (PyTensor out) (PyTensor tgt) =
         forward_minibatch self env gcw (PyTensor tgt) (PyTensor out)"
proof -
  have v': "valid_pair tgt out" using v by (auto simp: valid_pair_def)
  have sh: "shape out = shape tgt" using v by (simp add: valid_pair_def)
  have eo: "effective_output self out = out" "effective_output self tgt = tgt"
    using s by (simp_all add: effective_output_def)
  have "dice_formula (eps self) (shape out ! 1) (per_class_sum out tgt) (per_class_sum out out) (per_class_sum tgt tgt)
      = dice_formula (eps self) (shape tgt ! 1) (per_class_sum tgt out) (per_class_sum tgt tgt) (per_class_sum out out)"
    unfolding sh by (rule dice_formula_cong) (simp_all add: per_class_sum_commute[OF sh])
  then show ?thesis
    using forward_minibatch_local_value[OF v _ d, of self gcw] forward_minibatch_local_value[OF v' _ d, of self gcw] w
    by (simp add: eo)
qed

theorem forward_minibatch_symmetric_witness:
  "valid_pair (Tensor [1, 2, 2] [1, 0, 0, 1]) (Tensor [1, 2, 2] [1, 0, 1, 0]) \<and>
   forward_minibatch \<lparr>eps = 1 / 100000, apply_softmax = False, class_weight_power = None\<rparr>
     \<lparr>is_available = True, is_initialized = False\<rparr> (\<lambda>t p. t)
     (PyTensor (Tensor [1, 2, 2] [1, 0, 0, 1])) (PyTensor (Tensor [1, 2, 2] [1, 0, 1, 0]))
   = forward_minibatch \<lparr>eps = 1 / 100000, apply_softmax = False, class_weight_power = None\<rparr>
     \<lparr>is_available = True, is_initialized = False\<rparr> (\<lambda>t p. t)
     (PyTensor (Tensor [1, 2, 2] [1, 0, 1, 0])) (PyTensor (Tensor [1, 2, 2] [1, 0, 0, 1]))"
  using forward_minibatch_symmetric [of "Tensor [1, 2, 2] [1, 0, 0, 1]" "Tensor [1, 2, 2] [1, 0, 1, 0]"
      "\<lparr>eps = 1 / 100000, apply_softmax = False, class_weight_power = None\<rparr>"
      "\<lparr>is_available = True, is_initialized = False\<rparr>" "\<lambda>t p. t"]
  by (simp add: valid_pair_def wf_tensor_def)

section \<open>The training script\<close>




text \<open>
  C9: without \<open>--azureml\<close> the name \<open>run_info\<close> is never bound, the first read of
  \<open>run_info.input_datasets\<close> raises \<open>NameError\<close>, and \<open>trainer.fit\<close> is never called.
\<close>

theorem script_without_azureml_raises_NameError:
  "\<not> azureml args \<Longrightarrow>
   main submit_to_azure_if_needed args = (Raised (NameError ''run_info''), [])"
  by (simp add: main_def)

theorem script_without_azureml_raises_NameError_witness:
  "\<not> azureml \<lparr>batch_size = 32, csv_base_name = ''dataset.csv'', debug = False, gpu = None,
               azureml = False, gpus = None\<rparr> \<and>
   main None \<lparr>batch_size = 32, csv_base_name = ''dataset.csv'', debug = False, gpu = None,
               azureml = False, gpus = None\<rparr> = (Raised (NameError ''run_info''), [])"
  using script_without_azureml_raises_NameError [of
      "\<lparr>batch_size = 32, csv_base_name = ''dataset.csv'', debug = False, gpu = None,
        azureml = False, gpus = None\<rparr>" None]
  by simp


end
